theory Spec2Isabelle
  imports Main "HOL-Library.Word"
begin

section \<open>Python values used by \<open>PyPoE/poe/patchserver.py\<close>\<close>

text \<open>
  A Python \<open>bytes\<close> object is a list of 8-bit words. A Python \<open>str\<close> is a sequence of
  Unicode code points, modelled as a list of naturals (an Isabelle \<open>char\<close> is a byte and
  cannot hold the code points a UTF-16 decoder produces). \<open>py\<close> turns an ASCII literal
  into such a string.
\<close>

type_synonym byte = "8 word"
type_synonym bytes = "byte list"
type_synonym pystr = "nat list"

definition py :: "string \<Rightarrow> pystr" where
  "py s = map of_char s"

text \<open>The separator \<open>'/'\<close> that \<open>version\<close> and \<open>posixpath\<close> work with.\<close>

definition slash :: nat where
  "slash = 47"

subsection \<open>Exceptions\<close>

text \<open>
  The exceptions the module raises itself or lets through from the standard library.
  \<open>OSError\<close> carries the subclass that was raised. \<open>URLError\<close> carries its \<open>reason\<close>
  attribute, which is either an \<open>OSError\<close> instance or a message. \<open>HTTPError\<close> carries
  the status code; it is a subclass of \<open>URLError\<close>, which is a subclass of \<open>OSError\<close>.
\<close>

datatype oserror =
  ConnectionRefusedError | FileNotFoundError | TimeoutError | GaiError | SSLError | OtherOSError

datatype reason = ReasonOS oserror | ReasonText pystr

datatype exn =
    StructError
  | UnicodeDecodeError
  | AttributeError
  | TypeError
  | IndexError
  | ValueErrorDst
  | ValueErrorCode int
  | OSError oserror
  | URLError reason
  | HTTPError int

text \<open>\<open>isinstance(e, URLError)\<close> and \<open>isinstance(e, OSError)\<close>.\<close>

fun is_URLError :: "exn \<Rightarrow> bool" where
  "is_URLError (URLError r) = True"
| "is_URLError (HTTPError c) = True"
| "is_URLError e = False"

fun is_OSError :: "exn \<Rightarrow> bool" where
  "is_OSError (OSError k) = True"
| "is_OSError (URLError r) = True"
| "is_OSError (HTTPError c) = True"
| "is_OSError e = False"

text \<open>
  \<open>url_error.reason\<close>: the stored reason of a \<open>URLError\<close>; for an \<open>HTTPError\<close> the
  property returns the status message, a string.
\<close>

fun reason_of :: "exn \<Rightarrow> reason" where
  "reason_of (URLError r) = r"
| "reason_of e = ReasonText []"

text \<open>\<open>isinstance(reason, ConnectionRefusedError)\<close>.\<close>

fun is_ConnectionRefused :: "reason \<Rightarrow> bool" where
  "is_ConnectionRefused (ReasonOS ConnectionRefusedError) = True"
| "is_ConnectionRefused r = False"

subsection \<open>String methods\<close>

text \<open>
  \<open>s.strip(c)\<close> for a one-character argument removes every leading and every trailing
  occurrence of \<open>c\<close>. \<open>s.rsplit(c, maxsplit=1)\<close> cuts at the last occurrence of \<open>c\<close>, or
  returns \<open>[s]\<close> when there is none. \<open>xs[-1]\<close> raises \<open>IndexError\<close> on an empty list.
\<close>

definition lstrip :: "nat \<Rightarrow> pystr \<Rightarrow> pystr" where
  "lstrip c s = dropWhile (\<lambda>x. x = c) s"

definition rstrip :: "nat \<Rightarrow> pystr \<Rightarrow> pystr" where
  "rstrip c s = rev (dropWhile (\<lambda>x. x = c) (rev s))"

definition strip :: "nat \<Rightarrow> pystr \<Rightarrow> pystr" where
  "strip c s = rstrip c (lstrip c s)"

definition rsplit1 :: "nat \<Rightarrow> pystr \<Rightarrow> pystr list" where
  "rsplit1 c s =
     (if c \<in> set s
      then [rev (tl (dropWhile (\<lambda>x. x \<noteq> c) (rev s))), rev (takeWhile (\<lambda>x. x \<noteq> c) (rev s))]
      else [s])"

definition index_last :: "'a list \<Rightarrow> exn + 'a" where
  "index_last xs = (case xs of [] \<Rightarrow> Inl IndexError | _ \<Rightarrow> Inr (last xs))"

section \<open>The \<open>Patch\<close> object\<close>

text \<open>
  The attributes of a \<open>Patch\<close> instance. \<open>patch_url\<close>, \<open>patch_cdn_url\<close> and \<open>sock_fd\<close>
  do not exist until \<open>update_patch_urls\<close> assigns them, hence the options: reading an
  unassigned attribute raises \<open>AttributeError\<close>.
\<close>

record patch =
  master_server :: "pystr \<times> int"
  patch_url :: "pystr option"
  patch_cdn_url :: "pystr option"
  sock_fd :: "int option"

definition getattr :: "'a option \<Rightarrow> exn + 'a" where
  "getattr a = (case a of None \<Rightarrow> Inl AttributeError | Some v \<Rightarrow> Inr v)"

subsection \<open>\<open>Patch.version\<close>\<close>

text \<open>
  \<open>return self.patch_url.strip('/').rsplit('/', maxsplit=1)[-1]\<close>. The property reads
  one attribute and calls string methods only, so it is a function of the object.
\<close>

definition version :: "patch \<Rightarrow> exn + pystr" where
  "version self =
     (case getattr (patch_url self) of
        Inl e \<Rightarrow> Inl e
      | Inr u \<Rightarrow> index_last (rsplit1 slash (strip slash u)))"

section \<open>The outside world\<close>

text \<open>
  The module talks to a TCP socket, to \<open>urllib\<close> and to the file system. What they
  answer is not decided by the program, so it is a parameter of every operation (the
  record \<open>env\<close>); what the program did to them is recorded in the state \<open>world\<close>.
\<close>

datatype sock_event =
    SockCreate
  | SockConnect "pystr \<times> int"
  | SockSend bytes
  | SockRecv nat
  | SockDetach int
  | SockClose
  | FdOpen int
  | FdShutdown int
  | FdClose int

text \<open>
  \<open>urlopen\<close> either raises or returns a response object with a status code
  (\<open>getcode()\<close>) and a body that \<open>read()\<close> delivers or fails to deliver.
\<close>

datatype http_outcome = Raises exn | Response int "exn + bytes"

record world =
  requests :: "pystr list"
  files :: "pystr \<rightharpoonup> bytes"
  made_dirs :: "pystr list"
  sock_log :: "sock_event list"

record env =
  socket_out :: "exn option"
  connect_out :: "exn option"
  send_out :: "exn option"
  recv_out :: "exn + bytes"
  detach_fd :: int
  fromfd_out :: "int \<Rightarrow> exn option"
  shutdown_out :: "exn option"
  close_out :: "exn option"
  urlopen_out :: "pystr list \<Rightarrow> pystr \<Rightarrow> http_outcome"
  mkdir_out :: "pystr \<Rightarrow> exn option"
  open_out :: "pystr \<Rightarrow> exn option"

definition sock_ev :: "sock_event \<Rightarrow> world \<Rightarrow> world" where
  "sock_ev ev w = w\<lparr>sock_log := sock_log w @ [ev]\<rparr>"

section \<open>The handshake\<close>

subsection \<open>\<open>struct.unpack\<close> and \<open>bytes.decode('utf-16')\<close>\<close>

text \<open>
  \<open>struct.unpack('B', b)[0]\<close> and \<open>struct.unpack('33s', b)[0]\<close> raise \<open>struct.error\<close>
  unless the buffer has exactly 1, respectively 33, bytes.
\<close>

definition unpack_B :: "bytes \<Rightarrow> exn + nat" where
  "unpack_B b = (case b of [x] \<Rightarrow> Inr (unat x) | _ \<Rightarrow> Inl StructError)"

definition unpack_33s :: "bytes \<Rightarrow> exn + bytes" where
  "unpack_33s b = (if length b = 33 then Inr b else Inl StructError)"

text \<open>A 16-bit code unit from two bytes, in little-endian or big-endian order.\<close>

definition code_unit :: "bool \<Rightarrow> byte \<Rightarrow> byte \<Rightarrow> nat" where
  "code_unit le b0 b1 = (if le then unat b0 + 256 * unat b1 else unat b1 + 256 * unat b0)"

text \<open>
  The strict UTF-16 decoder on a byte string without byte order mark. It raises
  \<open>UnicodeDecodeError\<close> on an odd trailing byte (truncated data), on a low surrogate
  that follows no high surrogate (illegal encoding), on a high surrogate followed by
  something else (illegal UTF-16 surrogate) and on a high surrogate at the end
  (unexpected end of data).
\<close>

fun utf16_units :: "bool \<Rightarrow> bytes \<Rightarrow> exn + pystr" where
  "utf16_units le [] = Inr []"
| "utf16_units le [b] = Inl UnicodeDecodeError"
| "utf16_units le (b0 # b1 # bs) =
     (let u = code_unit le b0 b1 in
      if u < 0xD800 \<or> 0xDFFF < u then
        (case utf16_units le bs of Inl e \<Rightarrow> Inl e | Inr s \<Rightarrow> Inr (u # s))
      else if 0xDC00 \<le> u then Inl UnicodeDecodeError
      else
        (case bs of
           b2 # b3 # bs' \<Rightarrow>
             (let u2 = code_unit le b2 b3 in
              if 0xDC00 \<le> u2 \<and> u2 \<le> 0xDFFF then
                (case utf16_units le bs' of
                   Inl e \<Rightarrow> Inl e
                 | Inr s \<Rightarrow> Inr ((0x10000 + (u - 0xD800) * 0x400 + (u2 - 0xDC00)) # s))
              else Inl UnicodeDecodeError)
         | _ \<Rightarrow> Inl UnicodeDecodeError))"

text \<open>
  \<open>b.decode('utf-16')\<close>: a leading \<open>FF FE\<close> is a little-endian byte order mark and a
  leading \<open>FE FF\<close> a big-endian one; the mark is dropped and decides the byte order.
  Without a mark the decoder uses the byte order of the host, taken to be little-endian
  here (x86, ARM).
\<close>

definition decode_utf16 :: "bytes \<Rightarrow> exn + pystr" where
  "decode_utf16 b =
     (case b of
        b0 # b1 # rest \<Rightarrow>
          if b0 = 0xFF \<and> b1 = 0xFE then utf16_units True rest
          else if b0 = 0xFE \<and> b1 = 0xFF then utf16_units False rest
          else utf16_units True b
      | _ \<Rightarrow> utf16_units True b)"

subsection \<open>\<open>Patch.update_patch_urls\<close>\<close>

text \<open>
  The parse of the received buffer, lines 186 to 200 of the source. \<open>io.BytesIO.read(n)\<close>
  returns the next \<open>n\<close> bytes, or as many as are left: \<open>take n\<close> of the rest of the buffer,
  which then continues at \<open>drop n\<close>. Each assignment to an attribute of \<open>self\<close> happens
  where the source has it, so a failure further down keeps the assignments made before.
\<close>

definition parse_response :: "env \<Rightarrow> patch \<Rightarrow> world \<Rightarrow> bytes \<Rightarrow> patch \<times> world \<times> (exn + unit)" where
  "parse_response env self w d0 =
     (case unpack_B (take 1 d0) of Inl e \<Rightarrow> (self, w, Inl e) | Inr unknown \<Rightarrow>
     (let d1 = drop 1 d0 in
      case unpack_33s (take 33 d1) of Inl e \<Rightarrow> (self, w, Inl e) | Inr blank \<Rightarrow>
     (let d2 = drop 33 d1 in
      case unpack_B (take 1 d2) of Inl e \<Rightarrow> (self, w, Inl e) | Inr url_length \<Rightarrow>
     (let d3 = drop 1 d2 in
      case decode_utf16 (take (url_length * 2) d3) of Inl e \<Rightarrow> (self, w, Inl e) | Inr u1 \<Rightarrow>
     (let self1 = self\<lparr>patch_url := Some u1\<rparr>;
          d4 = drop (url_length * 2) d3 in
      case unpack_B (take 1 d4) of Inl e \<Rightarrow> (self1, w, Inl e) | Inr blank2 \<Rightarrow>
     (let d5 = drop 1 d4 in
      case unpack_B (take 1 d5) of Inl e \<Rightarrow> (self1, w, Inl e) | Inr url2_length \<Rightarrow>
     (let d6 = drop 1 d5 in
      case decode_utf16 (take (url2_length * 2) d6) of Inl e \<Rightarrow> (self1, w, Inl e) | Inr u2 \<Rightarrow>
     (let self2 = self1\<lparr>patch_cdn_url := Some u2\<rparr> in
      (self2\<lparr>sock_fd := Some (detach_fd env)\<rparr>,
       sock_ev (SockDetach (detach_fd env)) w, Inr ())))))))))"

text \<open>
  The body of the \<open>with\<close> statement: connect, send the two protocol bytes \<open>01 04\<close>,
  receive at most 1024 bytes, parse.
\<close>

definition PROTO :: bytes where
  "PROTO = [0x01, 0x04]"

definition handshake_body :: "env \<Rightarrow> patch \<Rightarrow> world \<Rightarrow> patch \<times> world \<times> (exn + unit)" where
  "handshake_body env self w0 =
     (let w1 = sock_ev (SockConnect (master_server self)) w0 in
      case connect_out env of Some e \<Rightarrow> (self, w1, Inl e) | None \<Rightarrow>
     (let w2 = sock_ev (SockSend PROTO) w1 in
      case send_out env of Some e \<Rightarrow> (self, w2, Inl e) | None \<Rightarrow>
     (let w3 = sock_ev (SockRecv 1024) w2 in
      case recv_out env of Inl e \<Rightarrow> (self, w3, Inl e) | Inr sent \<Rightarrow>
        parse_response env self w3 (take 1024 sent))))"

text \<open>
  \<open>with socket.socket(proto=socket.IPPROTO_TCP) as sock:\<close> closes the socket when the
  body raises. When the body returns the socket has been detached, and closing a
  detached socket object does nothing.
\<close>

definition update_patch_urls :: "env \<Rightarrow> patch \<Rightarrow> world \<Rightarrow> patch \<times> world \<times> (exn + unit)" where
  "update_patch_urls env self w =
     (case socket_out env of
        Some e \<Rightarrow> (self, w, Inl e)
      | None \<Rightarrow>
          (case handshake_body env self (sock_ev SockCreate w) of
             (self', w', Inl e) \<Rightarrow> (self', sock_ev SockClose w', Inl e)
           | (self', w', Inr u) \<Rightarrow> (self', w', Inr u)))"

subsection \<open>\<open>Patch.__init__\<close>\<close>

text \<open>
  \<open>Patch(master_server, master_port)\<close> creates the object, stores the address and calls
  \<open>update_patch_urls\<close>. When that raises, the constructor raises and the caller receives
  no object.
\<close>

definition patch_init :: "env \<Rightarrow> pystr \<Rightarrow> int \<Rightarrow> world \<Rightarrow> world \<times> (exn + patch)" where
  "patch_init env host port w =
     (let self = \<lparr>master_server = (host, port), patch_url = None, patch_cdn_url = None,
                  sock_fd = None\<rparr>
      in case update_patch_urls env self w of
           (self', w', Inl e) \<Rightarrow> (w', Inl e)
         | (self', w', Inr u) \<Rightarrow> (w', Inr self'))"

subsection \<open>\<open>Patch.__del__\<close>\<close>

text \<open>
  \<open>socket_fd_open\<close> wraps the descriptor with \<open>socket.fromfd\<close>, which can raise. An
  \<open>OSError\<close> from \<open>shutdown\<close> is passed over; any exception from \<open>close\<close> is raised again.
\<close>

definition socket_fd_open :: "env \<Rightarrow> int \<Rightarrow> world \<Rightarrow> world \<times> (exn + unit)" where
  "socket_fd_open env fd w =
     (case fromfd_out env fd of
        Some e \<Rightarrow> (w, Inl e)
      | None \<Rightarrow> (sock_ev (FdOpen fd) w, Inr ()))"

definition patch_del :: "env \<Rightarrow> patch \<Rightarrow> world \<Rightarrow> patch \<times> world \<times> (exn + unit)" where
  "patch_del env self w0 =
     (case getattr (sock_fd self) of Inl e \<Rightarrow> (self, w0, Inl e) | Inr fd \<Rightarrow>
     (case socket_fd_open env fd w0 of (w1, Inl e) \<Rightarrow> (self, w1, Inl e) | (w1, Inr sock) \<Rightarrow>
     (let w2 = sock_ev (FdShutdown fd) w1;
          shutdown_raised =
            (case shutdown_out env of
               Some e \<Rightarrow> (if is_OSError e then None else Some e)
             | None \<Rightarrow> None)
      in
      case shutdown_raised of Some e \<Rightarrow> (self, w2, Inl e) | None \<Rightarrow>
     (let w3 = sock_ev (FdClose fd) w2 in
      case close_out env of Some e \<Rightarrow> (self, w3, Inl e) | None \<Rightarrow> (self, w3, Inr ())))))"

section \<open>Downloads\<close>

subsection \<open>\<open>Patch.download_raw\<close>\<close>

text \<open>
  The loop \<open>for index, host in enumerate(hosts)\<close>. \<open>n\<close> is \<open>len(hosts)\<close>. Every call of
  \<open>urlopen\<close> is recorded in \<open>requests\<close>; its answer may depend on the requests made so
  far. Whatever is raised inside the \<open>try\<close> (by \<open>urlopen\<close>, by the status check or by
  \<open>read()\<close>) meets the one handler \<open>except URLError\<close>; the handler raises again unless the
  reason is a refused connection and \<open>index < len(hosts)\<close>. A loop that runs out of hosts
  falls off the end of the function, which then returns \<open>None\<close>.
\<close>

fun download_loop ::
  "env \<Rightarrow> pystr \<Rightarrow> nat \<Rightarrow> nat \<Rightarrow> pystr list \<Rightarrow> world \<Rightarrow> world \<times> (exn + bytes option)" where
  "download_loop env file_path n index [] w = (w, Inr None)"
| "download_loop env file_path n index (host # rest) w =
     (let url = host @ file_path;
          w' = w\<lparr>requests := requests w @ [url]\<rparr>;
          attempt =
            (case urlopen_out env (requests w) url of
               Raises e \<Rightarrow> Inl e
             | Response code body \<Rightarrow> (if code \<noteq> 200 then Inl (ValueErrorCode code) else body))
      in
      case attempt of
        Inr b \<Rightarrow> (w', Inr (Some b))
      | Inl e \<Rightarrow>
          (if is_URLError e then
             (if \<not> is_ConnectionRefused (reason_of e) \<or> \<not> index < n then (w', Inl e)
              else download_loop env file_path n (index + 1) rest w')
           else (w', Inl e)))"

definition download_raw ::
  "env \<Rightarrow> patch \<Rightarrow> pystr \<Rightarrow> world \<Rightarrow> patch \<times> world \<times> (exn + bytes option)" where
  "download_raw env self file_path w =
     (case getattr (patch_cdn_url self) of Inl e \<Rightarrow> (self, w, Inl e) | Inr cdn \<Rightarrow>
     (case getattr (patch_url self) of Inl e \<Rightarrow> (self, w, Inl e) | Inr url \<Rightarrow>
     (let hosts = [cdn, url] in
      case download_loop env file_path (length hosts) 0 hosts w of
        (w', r) \<Rightarrow> (self, w', r))))"

subsection \<open>\<open>os.path\<close>, \<open>os.makedirs\<close> and \<open>open\<close> on POSIX\<close>

text \<open>
  \<open>posixpath.join(a, b)\<close>: \<open>b\<close> alone when it starts with the separator, else \<open>a + b\<close>
  when \<open>a\<close> is empty or ends with the separator, else \<open>a + '/' + b\<close>.
\<close>

definition path_join :: "pystr \<Rightarrow> pystr \<Rightarrow> pystr" where
  "path_join a b =
     (if take 1 b = [slash] then b
      else if a = [] \<or> last a = slash then a @ b
      else a @ [slash] @ b)"

text \<open>
  \<open>posixpath.split(p)\<close>: cut after the last separator; trailing separators are
  stripped from the head unless the head consists of separators only.
\<close>

definition path_split :: "pystr \<Rightarrow> pystr \<times> pystr" where
  "path_split p =
     (let head = rev (dropWhile (\<lambda>x. x \<noteq> slash) (rev p));
          tail = rev (takeWhile (\<lambda>x. x \<noteq> slash) (rev p))
      in (if head \<noteq> [] \<and> head \<noteq> replicate (length head) slash then rstrip slash head
          else head, tail))"

text \<open>
  \<open>os.makedirs(name, exist_ok=True)\<close>. For the empty name \<open>makedirs\<close> finds neither a
  head nor a tail to recurse on and calls \<open>mkdir('')\<close>, which the system refuses with
  \<open>ENOENT\<close>; \<open>exist_ok\<close> passes an error over only when the name is a directory, and
  \<open>isdir('')\<close> is false, so \<open>FileNotFoundError\<close> is raised. For every other name the
  outcome is the file system's.
\<close>

definition os_makedirs :: "env \<Rightarrow> pystr \<Rightarrow> world \<Rightarrow> world \<times> (exn + unit)" where
  "os_makedirs env name w =
     (if name = [] then (w, Inl (OSError FileNotFoundError))
      else
        (case mkdir_out env name of
           Some e \<Rightarrow> (w, Inl e)
         | None \<Rightarrow> (w\<lparr>made_dirs := made_dirs w @ [name]\<rparr>, Inr ())))"

text \<open>
  \<open>open(path, mode='wb')\<close> raises, or creates the file when it does not exist and
  truncates it to length 0 when it does.
\<close>

definition open_wb :: "env \<Rightarrow> pystr \<Rightarrow> world \<Rightarrow> world \<times> (exn + unit)" where
  "open_wb env path w =
     (case open_out env path of
        Some e \<Rightarrow> (w, Inl e)
      | None \<Rightarrow> (w\<lparr>files := (files w)(path \<mapsto> [])\<rparr>, Inr ()))"

subsection \<open>\<open>Patch.download\<close>\<close>

text \<open>The truth value of an optional string argument: \<open>None\<close> and \<open>''\<close> are false.\<close>

definition truthy :: "pystr option \<Rightarrow> pystr option" where
  "truthy s = (case s of None \<Rightarrow> None | Some x \<Rightarrow> (if x = [] then None else Some x))"

definition write_path_of :: "pystr \<Rightarrow> pystr option \<Rightarrow> pystr option \<Rightarrow> exn + pystr" where
  "write_path_of file_path dst_dir dst_file =
     (case truthy dst_dir of
        Some d \<Rightarrow> Inr (path_join d file_path)
      | None \<Rightarrow>
          (case truthy dst_file of
             Some f \<Rightarrow> Inr f
           | None \<Rightarrow> Inl ValueErrorDst))"

text \<open>
  \<open>f.write(self.download_raw(file_path))\<close> runs inside \<open>with open(...) as f\<close>: the file
  is opened first, then the download runs, then its result is written.
  \<open>f.write(None)\<close> raises \<open>TypeError\<close>.
\<close>

definition download ::
  "env \<Rightarrow> patch \<Rightarrow> pystr \<Rightarrow> pystr option \<Rightarrow> pystr option \<Rightarrow> world \<Rightarrow> patch \<times> world \<times> (exn + unit)" where
  "download env self file_path dst_dir dst_file w =
     (case write_path_of file_path dst_dir dst_file of Inl e \<Rightarrow> (self, w, Inl e) | Inr write_path \<Rightarrow>
     (case os_makedirs env (fst (path_split write_path)) w of
        (w1, Inl e) \<Rightarrow> (self, w1, Inl e)
      | (w1, Inr u) \<Rightarrow>
     (case open_wb env write_path w1 of
        (w2, Inl e) \<Rightarrow> (self, w2, Inl e)
      | (w2, Inr f) \<Rightarrow>
     (case download_raw env self file_path w2 of
        (self', w3, Inl e) \<Rightarrow> (self', w3, Inl e)
      | (self', w3, Inr None) \<Rightarrow> (self', w3, Inl TypeError)
      | (self', w3, Inr (Some b)) \<Rightarrow>
          (self', w3\<lparr>files := (files w3)(write_path \<mapsto> b)\<rparr>, Inr ())))))"

section \<open>The handshake response as the specification lays it out\<close>

text \<open>
  The server's side is not part of the repository. The two definitions below follow the
  specification's description of the response: \<open>1B reserved | 33B reserved | 1B len1 |
  len1*2B UTF-16LE text | 1B reserved | 1B len2 | len2*2B UTF-16LE text\<close>, the lengths
  counting 16-bit code units. \<open>encode_utf16le\<close> is UTF-16LE without byte order mark:
  a code point below \<open>0x10000\<close> that is no surrogate is one code unit, a code point from
  \<open>0x10000\<close> up to \<open>0x10FFFF\<close> is a surrogate pair, and anything else cannot be encoded.
\<close>

fun encode_utf16le :: "pystr \<Rightarrow> bytes option" where
  "encode_utf16le [] = Some []"
| "encode_utf16le (c # cs) =
     (case encode_utf16le cs of
        None \<Rightarrow> None
      | Some bs \<Rightarrow>
          (if c < 0xD800 \<or> (0xDFFF < c \<and> c < 0x10000) then
             Some (of_nat (c mod 256) # of_nat (c div 256) # bs)
           else if 0x10000 \<le> c \<and> c < 0x110000 then
             (let hi = 0xD800 + (c - 0x10000) div 0x400;
                  lo = 0xDC00 + (c - 0x10000) mod 0x400
              in Some (of_nat (hi mod 256) # of_nat (hi div 256)
                       # of_nat (lo mod 256) # of_nat (lo div 256) # bs))
           else None))"

definition handshake_response :: "byte \<Rightarrow> bytes \<Rightarrow> bytes \<Rightarrow> byte \<Rightarrow> bytes \<Rightarrow> bytes" where
  "handshake_response r0 blank text1 r1 text2 =
     [r0] @ blank @ [of_nat (length text1 div 2)] @ text1
       @ [r1] @ [of_nat (length text2 div 2)] @ text2"

text \<open>
  The value of the first length field of a received buffer (the byte at offset 34), and
  0 when the buffer ends before it.
\<close>

definition declared_len1 :: "bytes \<Rightarrow> nat" where
  "declared_len1 d = (if 34 < length d then unat (d ! 34) else 0)"

text \<open>
  The value of the second length field (the byte at offset \<open>36 + 2 * len1\<close>), and 0
  when the buffer ends before it.
\<close>

definition declared_len2 :: "bytes \<Rightarrow> nat" where
  "declared_len2 d =
     (if 36 + 2 * declared_len1 d < length d then unat (d ! (36 + 2 * declared_len1 d)) else 0)"

text \<open>
  A string begins with a byte order mark when its first code point is \<open>U+FEFF\<close>, or
  \<open>U+FFFE\<close>, which reads as the mark of the opposite byte order.
\<close>

definition starts_with_bom :: "pystr \<Rightarrow> bool" where
  "starts_with_bom s = (take 1 s = [0xFEFF] \<or> take 1 s = [0xFFFE])"

section \<open>Example inputs\<close>

text \<open>
  A session as a successful handshake leaves it, an empty world, and an environment in
  which every system call succeeds and every HTTP request is answered with status 404.
\<close>

definition session :: patch where
  "session =
     \<lparr>master_server = (py ''pathofexile.com'', 12995),
      patch_url = Some (py ''http://patch.poecdn.com/3.23.0.1/''),
      patch_cdn_url = Some (py ''http://cdn.poecdn.com/3.23.0.1/''),
      sock_fd = Some 3\<rparr>"

definition unborn :: patch where
  "unborn =
     \<lparr>master_server = (py ''pathofexile.com'', 12995),
      patch_url = None, patch_cdn_url = None, sock_fd = None\<rparr>"

definition world0 :: world where
  "world0 = \<lparr>requests = [], files = Map.empty, made_dirs = [], sock_log = []\<rparr>"

definition env404 :: env where
  "env404 =
     \<lparr>socket_out = None, connect_out = None, send_out = None, recv_out = Inr [],
      detach_fd = 3, fromfd_out = (\<lambda>fd. None), shutdown_out = None, close_out = None,
      urlopen_out = (\<lambda>history url. Raises (HTTPError 404)),
      mkdir_out = (\<lambda>name. None), open_out = (\<lambda>path. None)\<rparr>"

definition refused :: http_outcome where
  "refused = Raises (URLError (ReasonOS ConnectionRefusedError))"

section \<open>Version extraction\<close>

lemma dropWhile_append_nonempty:
  "dropWhile P xs \<noteq> [] \<Longrightarrow> dropWhile P (xs @ zs) = dropWhile P xs @ zs"
  by (induction xs) auto

lemma rstrip_append_sep:
  assumes "v \<noteq> []" and "c \<notin> set v"
  shows "rstrip c (p @ v @ [c]) = p @ v"
proof -
  have "last v \<noteq> c" using assms by (metis last_in_set)
  then have "dropWhile (\<lambda>x. x = c) (rev v @ rev p) = rev v @ rev p"
    using assms(1) by (cases v rule: rev_cases) auto
  then show ?thesis by (simp add: rstrip_def)
qed

lemma lstrip_keeps_last_segment:
  assumes "v \<noteq> []" and "c \<notin> set v"
  shows "\<exists>q. lstrip c (p @ [c] @ v) = q @ v \<and> (q = [] \<or> last q = c)"
proof (induction p)
  case Nil
  have "hd v \<noteq> c" using assms by (metis hd_in_set)
  then have "dropWhile (\<lambda>x. x = c) v = v" using assms(1) by (cases v) auto
  then show ?case by (simp add: lstrip_def)
next
  case (Cons a p)
  show ?case
  proof (cases "a = c")
    case True
    then show ?thesis using Cons.IH by (simp add: lstrip_def)
  next
    case False
    then have "lstrip c ((a # p) @ [c] @ v) = (a # p @ [c]) @ v"
      by (simp add: lstrip_def)
    then show ?thesis by (metis last_snoc append_Cons)
  qed
qed

lemma rsplit1_last_segment:
  assumes "c \<notin> set v" and "q = [] \<or> last q = c"
  shows "index_last (rsplit1 c (q @ v)) = Inr v"
proof (cases "q = []")
  case True
  then show ?thesis using assms(1) by (simp add: rsplit1_def index_last_def)
next
  case False
  then have lq: "last q = c" using assms(2) by simp
  then have "c \<in> set q" using False by (metis last_in_set)
  moreover have "takeWhile (\<lambda>x. x \<noteq> c) (rev v @ rev q) = rev v"
    using assms(1) False lq by (cases q rule: rev_cases) (auto simp: takeWhile_append)
  ultimately show ?thesis by (simp add: rsplit1_def index_last_def)
qed

text \<open>
  C7. For a \<open>patch_url\<close> of the form \<open>prefix/version/\<close>, where the version is not empty
  and holds no \<open>/\<close>, \<open>Patch.version\<close> returns exactly the version. \<open>version\<close> is a function
  of the object alone: it performs no I/O and changes no attribute.
\<close>

theorem version_returns_last_segment:
  assumes "ver \<noteq> []" and "slash \<notin> set ver"
    and "patch_url self = Some (prefix @ [slash] @ ver @ [slash])"
  shows "version self = Inr ver"
proof -
  obtain q where q: "lstrip slash (prefix @ [slash] @ ver) = q @ ver" "q = [] \<or> last q = slash"
    using lstrip_keeps_last_segment [OF assms(1,2)] by blast
  have "dropWhile (\<lambda>x. x = slash) ((prefix @ [slash] @ ver) @ [slash])
          = dropWhile (\<lambda>x. x = slash) (prefix @ [slash] @ ver) @ [slash]"
    using q(1) assms(1) by (intro dropWhile_append_nonempty) (simp add: lstrip_def)
  then have "lstrip slash (prefix @ [slash] @ ver @ [slash]) = q @ ver @ [slash]"
    using q(1) by (simp add: lstrip_def)
  then have "strip slash (prefix @ [slash] @ ver @ [slash]) = q @ ver"
    using rstrip_append_sep [OF assms(1,2)] by (simp add: strip_def)
  then show ?thesis
    using rsplit1_last_segment [OF assms(2) q(2)] assms(3)
    by (simp add: version_def getattr_def)
qed

theorem version_returns_last_segment_witness:
  "version \<lparr>master_server = (py ''pathofexile.com'', 12995),
            patch_url = Some (py ''http://patch.poecdn.com/3.23.0.1/''),
            patch_cdn_url = Some (py ''http://patch-cdn.poecdn.com/3.23.0.1/''),
            sock_fd = Some 3\<rparr> = Inr (py ''3.23.0.1'')"
proof -
  have "py ''3.23.0.1'' \<noteq> []" and "slash \<notin> set (py ''3.23.0.1'')"
    by (simp_all add: py_def slash_def)
  moreover have "py ''http://patch.poecdn.com/3.23.0.1/''
      = py ''http://patch.poecdn.com'' @ [slash] @ py ''3.23.0.1'' @ [slash]"
    by (simp add: py_def slash_def)
  ultimately show ?thesis
    by (intro version_returns_last_segment [where prefix = "py ''http://patch.poecdn.com''"]) simp_all
qed

section \<open>Teardown\<close>

text \<open>
  C8. In \<open>Patch.__del__\<close>, once the descriptor has been wrapped, an \<open>OSError\<close> raised by
  \<open>shutdown\<close> is suppressed: \<open>close\<close> is still called, and the outcome of the method is the
  outcome of \<open>close\<close>. A failure of \<open>close\<close> is raised to the caller, and the method
  returns normally when \<open>close\<close> succeeds. This is the method as a caller of it sees it.
\<close>

theorem del_swallows_shutdown_surfaces_close:
  assumes "sock_fd self = Some fd" and "fromfd_out env fd = None"
    and "shutdown_out env = None \<or> (\<exists>e. shutdown_out env = Some e \<and> is_OSError e)"
  shows "patch_del env self w =
           (self, sock_ev (FdClose fd) (sock_ev (FdShutdown fd) (sock_ev (FdOpen fd) w)),
            case close_out env of Some e \<Rightarrow> Inl e | None \<Rightarrow> Inr ())"
  using assms
  by (auto simp: patch_del_def getattr_def socket_fd_open_def Let_def split: option.splits)

theorem del_swallows_shutdown_surfaces_close_witness:
  "patch_del (env404\<lparr>shutdown_out := Some (OSError OtherOSError)\<rparr>) session world0
     = (session, sock_ev (FdClose 3) (sock_ev (FdShutdown 3) (sock_ev (FdOpen 3) world0)), Inr ())
   \<and> patch_del (env404\<lparr>shutdown_out := Some (OSError OtherOSError),
                         close_out := Some (OSError OtherOSError)\<rparr>) session world0
     = (session, sock_ev (FdClose 3) (sock_ev (FdShutdown 3) (sock_ev (FdOpen 3) world0)),
        Inl (OSError OtherOSError))"
  using del_swallows_shutdown_surfaces_close
      [of session 3 "env404\<lparr>shutdown_out := Some (OSError OtherOSError)\<rparr>" world0]
    del_swallows_shutdown_surfaces_close
      [of session 3 "env404\<lparr>shutdown_out := Some (OSError OtherOSError),
                         close_out := Some (OSError OtherOSError)\<rparr>" world0]
  by (simp add: session_def env404_def)

section \<open>Fetching\<close>

subsection \<open>What a download leaves alone\<close>

lemma download_loop_sock_log:
  "sock_log (fst (download_loop env fp n i hosts w)) = sock_log w"
  by (induction env fp n i hosts w rule: download_loop.induct)
     (auto simp: Let_def split: http_outcome.splits sum.splits)

lemma download_loop_files:
  "files (fst (download_loop env fp n i hosts w)) = files w"
  by (induction env fp n i hosts w rule: download_loop.induct)
     (auto simp: Let_def split: http_outcome.splits sum.splits)

lemma download_loop_made_dirs:
  "made_dirs (fst (download_loop env fp n i hosts w)) = made_dirs w"
  by (induction env fp n i hosts w rule: download_loop.induct)
     (auto simp: Let_def split: http_outcome.splits sum.splits)

lemma download_raw_self: "fst (download_raw env self fp w) = self"
  by (simp add: download_raw_def Let_def split: sum.splits prod.splits)

lemma download_raw_sock_log: "sock_log (fst (snd (download_raw env self fp w))) = sock_log w"
  using download_loop_sock_log [of env fp 2 0 _ w]
  by (auto simp add: download_raw_def Let_def  split: sum.splits prod.splits)

lemma download_raw_files: "files (fst (snd (download_raw env self fp w))) = files w"
  using download_loop_files [of env fp 2 0 _ w]
  by (auto simp add: download_raw_def Let_def  split: sum.splits prod.splits)

lemma download_raw_made_dirs: "made_dirs (fst (snd (download_raw env self fp w))) = made_dirs w"
  using download_loop_made_dirs [of env fp 2 0 _ w]
  by (auto simp add: download_raw_def Let_def  split: sum.splits prod.splits)

lemma download_raw_frame:
  assumes "download_raw env self fp w = (s, w', r)"
  shows "s = self" and "sock_log w' = sock_log w" and "files w' = files w"
    and "made_dirs w' = made_dirs w"
  using assms download_raw_self [of env self fp w] download_raw_sock_log [of env self fp w]
    download_raw_files [of env self fp w]  download_raw_made_dirs [of env self fp w]
  by simp_all

lemma os_makedirs_frame:
  assumes "os_makedirs env name w = (w', r)"
  shows "sock_log w' = sock_log w" and "files w' = files w" and "requests w' = requests w"
  using assms by (auto simp: os_makedirs_def split: if_splits option.splits)

lemma open_wb_frame:
  assumes "open_wb env path w = (w', r)"
  shows "sock_log w' = sock_log w" and "requests w' = requests w"
  using assms by (auto simp: open_wb_def split: option.splits)

lemma download_frame:
  "fst (download env self fp dst_dir dst_file w) = self
   \<and> sock_log (fst (snd (download env self fp dst_dir dst_file w))) = sock_log w"
proof (cases "write_path_of fp dst_dir dst_file")
  case (Inl e)
  then show ?thesis by (simp add: download_def)
next
  case (Inr p)
  obtain w1 r1 where m: "os_makedirs env (fst (path_split p)) w = (w1, r1)"
    by (cases "os_makedirs env (fst (path_split p)) w")
  obtain w2 r2 where f: "open_wb env p w1 = (w2, r2)"
    by (cases "open_wb env p w1")
  obtain s w3 r3 where d: "download_raw env self fp w2 = (s, w3, r3)"
    by (cases "download_raw env self fp w2")
  have "s = self" and "sock_log w3 = sock_log w2" and "sock_log w2 = sock_log w1"
    and "sock_log w1 = sock_log w"
    using download_raw_frame(1,2) [OF d] open_wb_frame(1) [OF f] os_makedirs_frame(1) [OF m]
    by simp_all
  then show ?thesis
    by (simp add: download_def Inr m f d split: sum.splits option.splits)
qed

text \<open>
  C9. \<open>download_raw\<close> and \<open>download\<close> return the \<open>Patch\<close> object as they found it
  (\<open>patch_url\<close>, \<open>patch_cdn_url\<close>, \<open>sock_fd\<close> and the master address are unchanged), and
  they add no event to the log of socket operations: the handshake socket is neither
  read, written nor closed by a download.
\<close>

theorem downloads_leave_session_untouched:
  "fst (download_raw env self fp w) = self
   \<and> sock_log (fst (snd (download_raw env self fp w))) = sock_log w
   \<and> fst (download env self fp dst_dir dst_file w) = self
   \<and> sock_log (fst (snd (download env self fp dst_dir dst_file w))) = sock_log w"
  using download_frame download_raw_self download_raw_sock_log by simp

theorem downloads_leave_session_untouched_witness:
  "fst (download_raw env404 session (py ''Data/Mods.dat'') world0) = session
   \<and> sock_log (fst (snd (download_raw env404 session (py ''Data/Mods.dat'') world0))) = sock_log world0
   \<and> fst (download env404 session (py ''Data/Mods.dat'') (Some (py ''out'')) None world0) = session
   \<and> sock_log (fst (snd (download env404 session (py ''Data/Mods.dat'') (Some (py ''out'')) None world0)))
       = sock_log world0"
  by (rule downloads_leave_session_untouched)

subsection \<open>Candidates and fallback\<close>

text \<open>
  C6. When the first candidate (\<open>patch_cdn_url + file_path\<close>) answers with status 200,
  \<open>download_raw\<close> returns its body after that one request. When the first candidate
  refuses the connection and the second (\<open>patch_url + file_path\<close>) answers with status
  200, \<open>download_raw\<close> returns the body of the second and raises nothing; no request
  follows the one answered with 200.
\<close>

theorem download_raw_returns_first_200:
  assumes "patch_cdn_url self = Some cdn" and "patch_url self = Some url"
  shows "(urlopen_out env (requests w) (cdn @ fp) = Response 200 (Inr body) \<longrightarrow>
            download_raw env self fp w
              = (self, w\<lparr>requests := requests w @ [cdn @ fp]\<rparr>, Inr (Some body)))
       \<and> (urlopen_out env (requests w) (cdn @ fp) = refused
            \<and> urlopen_out env (requests w @ [cdn @ fp]) (url @ fp) = Response 200 (Inr body) \<longrightarrow>
            download_raw env self fp w
              = (self, w\<lparr>requests := requests w @ [cdn @ fp, url @ fp]\<rparr>, Inr (Some body)))"
  using assms by (simp add: download_raw_def getattr_def refused_def)

theorem download_raw_returns_first_200_witness:
  "download_raw (env404\<lparr>urlopen_out := (\<lambda>history url. Response 200 (Inr [1, 2, 3]))\<rparr>)
       session (py ''Data/Mods.dat'') world0
     = (session, world0\<lparr>requests := [py ''http://cdn.poecdn.com/3.23.0.1/Data/Mods.dat'']\<rparr>,
        Inr (Some [1, 2, 3]))
   \<and> download_raw (env404\<lparr>urlopen_out := (\<lambda>history url.
                       if history = [] then refused else Response 200 (Inr [4, 5]))\<rparr>)
       session (py ''Data/Mods.dat'') world0
     = (session, world0\<lparr>requests := [py ''http://cdn.poecdn.com/3.23.0.1/Data/Mods.dat'',
                                       py ''http://patch.poecdn.com/3.23.0.1/Data/Mods.dat'']\<rparr>,
        Inr (Some [4, 5]))"
  using download_raw_returns_first_200
      [of session "py ''http://cdn.poecdn.com/3.23.0.1/''" "py ''http://patch.poecdn.com/3.23.0.1/''"
          "env404\<lparr>urlopen_out := (\<lambda>history url. Response 200 (Inr [1, 2, 3]))\<rparr>" world0
          "py ''Data/Mods.dat''" "[1, 2, 3]"]
    download_raw_returns_first_200
      [of session "py ''http://cdn.poecdn.com/3.23.0.1/''" "py ''http://patch.poecdn.com/3.23.0.1/''"
          "env404\<lparr>urlopen_out := (\<lambda>history url.
                       if history = [] then refused else Response 200 (Inr [4, 5]))\<rparr>" world0
          "py ''Data/Mods.dat''" "[4, 5]"]
  by (simp add: session_def world0_def py_def refused_def)

text \<open>
  A failure of the first candidate other than a refused connection is raised at once,
  after one request: an exception from \<open>urlopen\<close> (an \<open>HTTPError\<close> for status 404, a
  \<open>URLError\<close> for a timeout, a DNS or a TLS failure), the \<open>ValueError\<close> of a status other
  than 200, or an exception from \<open>read()\<close>.
\<close>

lemma download_raw_other_failure_raised:
  assumes "patch_cdn_url self = Some cdn" and "patch_url self = Some url"
    and "urlopen_out env (requests w) (cdn @ fp) = Raises e
         \<or> (\<exists>code. code \<noteq> 200 \<and> e = ValueErrorCode code
               \<and> urlopen_out env (requests w) (cdn @ fp) = Response code body)
         \<or> urlopen_out env (requests w) (cdn @ fp) = Response 200 (Inl e)"
    and "\<not> (is_URLError e \<and> is_ConnectionRefused (reason_of e))"
  shows "download_raw env self fp w = (self, w\<lparr>requests := requests w @ [cdn @ fp]\<rparr>, Inl e)"
  using assms by (auto simp add: download_raw_def getattr_def Let_def)

text \<open>
  C2. The specification has a connection refused by both the CDN and the master URL
  raise. The code does not: the handler raises again only when
  \<open>not index < len(hosts)\<close>, and \<open>index\<close> is 0 or 1 while \<open>len(hosts)\<close> is 2, so the refusal of
  the last candidate is passed over as well, the loop ends, and \<open>download_raw\<close> returns
  \<open>None\<close> after two requests.
\<close>

theorem download_raw_both_refused_returns_None:
  assumes "patch_cdn_url self = Some cdn" and "patch_url self = Some url"
    and "urlopen_out env (requests w) (cdn @ fp) = refused"
    and "urlopen_out env (requests w @ [cdn @ fp]) (url @ fp) = refused"
  shows "download_raw env self fp w
           = (self, w\<lparr>requests := requests w @ [cdn @ fp, url @ fp]\<rparr>, Inr None)"
  using assms by (simp add: download_raw_def getattr_def refused_def)

theorem download_raw_both_refused_returns_None_witness:
  "download_raw (env404\<lparr>urlopen_out := (\<lambda>history url. refused)\<rparr>)
       session (py ''Data/Mods.dat'') world0
     = (session, world0\<lparr>requests := [py ''http://cdn.poecdn.com/3.23.0.1/Data/Mods.dat'',
                                       py ''http://patch.poecdn.com/3.23.0.1/Data/Mods.dat'']\<rparr>,
        Inr None)"
  using download_raw_both_refused_returns_None
      [of session "py ''http://cdn.poecdn.com/3.23.0.1/''" "py ''http://patch.poecdn.com/3.23.0.1/''"
          "env404\<lparr>urlopen_out := (\<lambda>history url. refused)\<rparr>" world0 "py ''Data/Mods.dat''"]
  by (simp add: session_def world0_def py_def)

section \<open>Writing the download to a file\<close>

text \<open>
  C10. With \<open>dst_dir\<close> unset (or empty) and \<open>dst_file\<close> a file name without separator,
  \<open>download\<close> raises \<open>FileNotFoundError\<close>: the directory part of the write path is empty
  and \<open>os.makedirs('')\<close> fails. The world is unchanged: no request was made and no file
  was opened or written.
\<close>

theorem download_bare_dst_file_raises:
  assumes "truthy dst_dir = None" and "dst_file = Some name" and "name \<noteq> []"
    and "slash \<notin> set name"
  shows "download env self fp dst_dir dst_file w = (self, w, Inl (OSError FileNotFoundError))"
proof -
  have "write_path_of fp dst_dir dst_file = Inr name"
    using assms(1-3) by (simp add: write_path_of_def truthy_def)
  moreover have "fst (path_split name) = []"
    using assms(4) by (auto simp add: path_split_def Let_def)
  ultimately show ?thesis
    by (simp add: download_def os_makedirs_def)
qed

theorem download_bare_dst_file_raises_witness:
  "download env404 session (py ''Data/Mods.dat'') None (Some (py ''Mods.dat'')) world0
     = (session, world0, Inl (OSError FileNotFoundError))"
  using download_bare_dst_file_raises [of None "Some (py ''Mods.dat'')" "py ''Mods.dat''"]
  by (simp add: truthy_def py_def slash_def)

text \<open>
  C3, as the code has it. When neither \<open>dst_dir\<close> nor \<open>dst_file\<close> is set (\<open>None\<close> or the
  empty string), \<open>download\<close> raises \<open>ValueError\<close> and the world is unchanged: no request,
  no directory, no file. When \<open>dst_dir\<close> is set, \<open>dst_file\<close> is not looked at: a call with
  both arguments does what the call with \<open>dst_dir\<close> alone does.
\<close>

theorem download_destination_arguments:
  "(truthy dst_dir = None \<and> truthy dst_file = None \<longrightarrow>
      download env self fp dst_dir dst_file w = (self, w, Inl ValueErrorDst))
   \<and> (truthy dst_dir \<noteq> None \<longrightarrow>
      download env self fp dst_dir dst_file w = download env self fp dst_dir None w)"
  by (auto simp: download_def write_path_of_def)

theorem download_destination_arguments_witness:
  "download env404 session (py ''Data/Mods.dat'') None (Some []) world0
     = (session, world0, Inl ValueErrorDst)
   \<and> download env404 session (py ''Data/Mods.dat'') (Some (py ''out'')) (Some (py ''tmp/x.bin'')) world0
     = download env404 session (py ''Data/Mods.dat'') (Some (py ''out'')) None world0"
  using download_destination_arguments [of None "Some []" env404 session "py ''Data/Mods.dat''" world0]
    download_destination_arguments [of "Some (py ''out'')" "Some (py ''tmp/x.bin'')" env404 session
      "py ''Data/Mods.dat''" world0]
  by (simp add: truthy_def py_def)

text \<open>
  C3 as stated fails: a call with both \<open>dst_dir\<close> and \<open>dst_file\<close> set raises nothing;
  it requests the file and returns.
\<close>

theorem download_both_destinations_counterexample:
  "snd (snd (download (env404\<lparr>urlopen_out := (\<lambda>history url. Response 200 (Inr [1, 2, 3]))\<rparr>)
               session (py ''Data/Mods.dat'') (Some (py ''out'')) (Some (py ''tmp/x.bin'')) world0))
     = Inr ()
   \<and> requests (fst (snd (download (env404\<lparr>urlopen_out := (\<lambda>history url. Response 200 (Inr [1, 2, 3]))\<rparr>)
               session (py ''Data/Mods.dat'') (Some (py ''out'')) (Some (py ''tmp/x.bin'')) world0)))
     = [py ''http://cdn.poecdn.com/3.23.0.1/Data/Mods.dat'']"
  by (simp add: download_def write_path_of_def truthy_def path_join_def path_split_def
      os_makedirs_def open_wb_def download_raw_def getattr_def session_def world0_def env404_def
      py_def slash_def rstrip_def Let_def)

text \<open>
  C4, as the code has it. \<open>download\<close> opens the destination for writing before it
  fetches. When the directories were made, the file was opened and \<open>download_raw\<close> then
  raises, \<open>download\<close> raises the same exception, none of the fetched bytes is written,
  and the destination is left as \<open>open\<close> made it: it exists and is empty, whatever it held
  before. No other file is changed.
\<close>

theorem download_failure_leaves_empty_file:
  assumes "write_path_of fp dst_dir dst_file = Inr p"
    and "os_makedirs env (fst (path_split p)) w = (w1, Inr ())"
    and "open_wb env p w1 = (w2, Inr ())"
    and "download_raw env self fp w2 = (self', w3, Inl e)"
  shows "download env self fp dst_dir dst_file w = (self, w3, Inl e)
         \<and> files w3 p = Some []
         \<and> (\<forall>q. q \<noteq> p \<longrightarrow> files w3 q = files w q)"
proof -
  have "self' = self" and "files w3 = files w2"
    using download_raw_frame(1,3) [OF assms(4)] by simp_all
  moreover have "files w2 = (files w1)(p \<mapsto> [])"
    using assms(3) by (auto simp: open_wb_def split: option.splits)
  moreover have "files w1 = files w"
    using os_makedirs_frame(2) [OF assms(2)] .
  ultimately show ?thesis
    using assms by (simp add: download_def)
qed

theorem download_failure_leaves_empty_file_witness:
  "download env404 session (py ''Data/Mods.dat'') None (Some (py ''tmp/x.bin''))
       (world0\<lparr>files := [py ''tmp/x.bin'' \<mapsto> [1, 2, 3]]\<rparr>)
     = (session,
        \<lparr>requests = [py ''http://cdn.poecdn.com/3.23.0.1/Data/Mods.dat''],
         files = [py ''tmp/x.bin'' \<mapsto> []], made_dirs = [py ''tmp''], sock_log = []\<rparr>,
        Inl (HTTPError 404))
   \<and> files \<lparr>requests = [py ''http://cdn.poecdn.com/3.23.0.1/Data/Mods.dat''],
         files = [py ''tmp/x.bin'' \<mapsto> []], made_dirs = [py ''tmp''], sock_log = []\<rparr>
        (py ''tmp/x.bin'') = Some []"
proof -
  let ?p = "py ''tmp/x.bin''"
  let ?w = "world0\<lparr>files := [?p \<mapsto> [1, 2, 3]]\<rparr>"
  let ?w1 = "?w\<lparr>made_dirs := [py ''tmp'']\<rparr>"
  let ?w2 = "?w1\<lparr>files := [?p \<mapsto> []]\<rparr>"
  let ?w3 = "?w2\<lparr>requests := [py ''http://cdn.poecdn.com/3.23.0.1/Data/Mods.dat'']\<rparr>"
  have 1: "write_path_of (py ''Data/Mods.dat'') None (Some ?p) = Inr ?p"
    by (simp add: write_path_of_def truthy_def py_def)
  have 2: "os_makedirs env404 (fst (path_split ?p)) ?w = (?w1, Inr ())"
    by (simp add: os_makedirs_def path_split_def rstrip_def py_def slash_def env404_def world0_def)
  have 3: "open_wb env404 ?p ?w1 = (?w2, Inr ())"
    by (simp add: open_wb_def env404_def world0_def)
  have 4: "download_raw env404 session (py ''Data/Mods.dat'') ?w2 = (session, ?w3, Inl (HTTPError 404))"
    by (simp add: download_raw_def getattr_def session_def env404_def world0_def py_def)
  show ?thesis
    using download_failure_leaves_empty_file [OF 1 2 3 4]
    by (simp add: world0_def)
qed

text \<open>
  C4 as stated fails: a destination that held three bytes is empty after a download
  whose request was answered with status 404.
\<close>

theorem download_failure_truncates_counterexample:
  "snd (snd (download env404 session (py ''Data/Mods.dat'') None (Some (py ''tmp/x.bin''))
               (world0\<lparr>files := [py ''tmp/x.bin'' \<mapsto> [1, 2, 3]]\<rparr>)))
     = Inl (HTTPError 404)
   \<and> files (world0\<lparr>files := [py ''tmp/x.bin'' \<mapsto> [1, 2, 3]]\<rparr>) (py ''tmp/x.bin'') = Some [1, 2, 3]
   \<and> files (fst (snd (download env404 session (py ''Data/Mods.dat'') None (Some (py ''tmp/x.bin''))
               (world0\<lparr>files := [py ''tmp/x.bin'' \<mapsto> [1, 2, 3]]\<rparr>)))) (py ''tmp/x.bin'')
     = Some []"
  by (simp add: download_def write_path_of_def truthy_def path_join_def path_split_def
      os_makedirs_def open_wb_def download_raw_def getattr_def session_def world0_def env404_def
      py_def slash_def rstrip_def Let_def)

section \<open>Properties of the handshake\<close>

subsection \<open>Truncated responses\<close>

lemma unpack_B_Inr: "unpack_B b = Inr x \<Longrightarrow> length b = 1 \<and> x = unat (hd b)"
  by (auto simp: unpack_B_def split: list.splits)

lemma unpack_33s_Inr: "unpack_33s b = Inr y \<Longrightarrow> length b = 33"
  by (auto simp: unpack_33s_def split: if_splits)

lemma parse_response_success_length:
  assumes "parse_response env self w d = (s, w', Inr u)"
  shows "37 + 2 * declared_len1 d \<le> length d"
proof -
  from assms obtain unknown blank url_length u1 blank2 url2_length where
    a: "unpack_B (take 1 d) = Inr unknown"
    and b: "unpack_33s (take 33 (drop 1 d)) = Inr blank"
    and c: "unpack_B (take 1 (drop 34 d)) = Inr url_length"
    and e: "unpack_B (take 1 (drop (url_length * 2 + 35) d)) = Inr blank2"
    and f: "unpack_B (take 1 (drop (url_length * 2 + 36) d)) = Inr url2_length"
    by (auto simp: parse_response_def Let_def add.commute split: sum.splits)
  have l34: "34 < length d" using unpack_B_Inr [OF c] by auto
  have "url_length = unat (hd (take 1 (drop 34 d)))" using unpack_B_Inr [OF c] by simp
  also have "\<dots> = unat (d ! 34)" using l34 by (simp add: hd_drop_conv_nth)
  finally have "declared_len1 d = url_length" using l34 by (simp add: declared_len1_def)
  moreover have "url_length * 2 + 36 < length d" using unpack_B_Inr [OF f] by auto
  ultimately show ?thesis by simp
qed

lemma utf16_units_odd: "odd (length b) \<Longrightarrow> utf16_units le b = Inl UnicodeDecodeError"
proof (induction b rule: length_induct)
  case (1 b)
  show ?case
  proof (cases b)
    case Nil
    then show ?thesis using "1.prems" by simp
  next
    case b0: (Cons b0 r)
    show ?thesis
    proof (cases r)
      case Nil
      then show ?thesis using b0 by simp
    next
      case b1: (Cons b1 bs)
      have odd_bs: "odd (length bs)" using "1.prems" b0 b1 by simp
      then have bs: "utf16_units le bs = Inl UnicodeDecodeError"
        using "1.IH" b0 b1 by simp
      have "utf16_units le bs' = Inl UnicodeDecodeError" if "bs = b2 # b3 # bs'" for b2 b3 bs'
        using "1.IH" odd_bs that b0 b1 by simp
      then show ?thesis
        using bs by (simp add: b0 b1 Let_def split: list.splits)
    qed
  qed
qed

lemma decode_utf16_odd: "odd (length b) \<Longrightarrow> decode_utf16 b = Inl UnicodeDecodeError"
  by (auto simp: decode_utf16_def utf16_units_odd simp del: utf16_units.simps split: list.splits)

lemma parse_response_success_even:
  assumes "parse_response env self w d = (s, w', Inr u)"
    and "length d < 37 + 2 * declared_len1 d + 2 * declared_len2 d"
  shows "odd (length d)"
proof -
  from assms(1) obtain url_length url2_length u2 where
    c: "unpack_B (take 1 (drop 34 d)) = Inr url_length"
    and f: "unpack_B (take 1 (drop (url_length * 2 + 36) d)) = Inr url2_length"
    and g: "decode_utf16 (take (url2_length * 2) (drop (url_length * 2 + 37) d)) = Inr u2"
    by (auto simp: parse_response_def Let_def add.commute split: sum.splits)
  have l34: "34 < length d" using unpack_B_Inr [OF c] by auto
  have "url_length = unat (hd (take 1 (drop 34 d)))" using unpack_B_Inr [OF c] by simp
  also have "\<dots> = unat (d ! 34)" using l34 by (simp add: hd_drop_conv_nth)
  finally have len1: "declared_len1 d = url_length" using l34 by (simp add: declared_len1_def)
  have l36: "url_length * 2 + 36 < length d" using unpack_B_Inr [OF f] by auto
  have "url2_length = unat (hd (take 1 (drop (url_length * 2 + 36) d)))"
    using unpack_B_Inr [OF f] by simp
  also have "\<dots> = unat (d ! (url_length * 2 + 36))" using l36 by (simp add: hd_drop_conv_nth)
  finally have len2: "declared_len2 d = url2_length"
    using l36 len1 by (simp add: declared_len2_def add.commute mult.commute)
  have "even (length (take (url2_length * 2) (drop (url_length * 2 + 37) d)))"
    using g decode_utf16_odd by fastforce
  moreover have "length (take (url2_length * 2) (drop (url_length * 2 + 37) d))
      = length d - (url_length * 2 + 37)"
    using assms(2) len1 len2 by simp
  ultimately show ?thesis using l36 by presburger
qed

lemma parse_response_failure_keeps:
  assumes "parse_response env self w d = (s, w', Inl e)"
  shows "patch_cdn_url s = patch_cdn_url self \<and> sock_fd s = sock_fd self
         \<and> master_server s = master_server self"
  using assms by (auto simp: parse_response_def Let_def split: sum.splits)

lemma parse_response_success_sets:
  assumes "parse_response env self w d = (s, w', Inr u)"
  shows "patch_url s \<noteq> None \<and> patch_cdn_url s \<noteq> None \<and> sock_fd s = Some (detach_fd env)"
  using assms by (auto simp: parse_response_def Let_def split: sum.splits)

lemma update_patch_urls_cases:
  assumes "update_patch_urls env self w = (s, w', r)"
  shows "(s = self \<and> isl r)
         \<or> (\<exists>sent w0 w1. recv_out env = Inr sent
               \<and> parse_response env self w0 (take 1024 sent) = (s, w1, r))"
  using assms
  by (auto simp: update_patch_urls_def handshake_body_def Let_def
      split: option.splits sum.splits prod.splits)

text \<open>
  C1, as the code has it. Let \<open>d\<close> be the received buffer, \<open>len1\<close> and \<open>len2\<close> its two length
  fields. The complete response has \<open>37 + 2 * len1 + 2 * len2\<close> bytes. A shorter buffer
  makes \<open>update_patch_urls\<close>, and with it the constructor, raise (\<open>struct.error\<close> or
  \<open>UnicodeDecodeError\<close>) when it ends before the second length field (fewer than
  \<open>37 + 2 * len1\<close> bytes) or when its length is even, so that the second text is cut inside
  a code unit. Whenever \<open>update_patch_urls\<close> raises, \<open>patch_cdn_url\<close> and \<open>sock_fd\<close> are as
  they were before the call; whenever it returns, \<open>patch_url\<close>, \<open>patch_cdn_url\<close> and
  \<open>sock_fd\<close> are all set. A session that the constructor returns has all three set.
\<close>

theorem handshake_truncated_or_failed:
  assumes "recv_out env = Inr sent" and "d = take 1024 sent"
    and "update_patch_urls env self w = (s, w', r)"
  shows "(length d < 37 + 2 * declared_len1 d + 2 * declared_len2 d
           \<and> (length d < 37 + 2 * declared_len1 d \<or> even (length d))
           \<longrightarrow> isl r \<and> isl (snd (patch_init env host port w)))
       \<and> (isl r \<longrightarrow> patch_cdn_url s = patch_cdn_url self \<and> sock_fd s = sock_fd self)
       \<and> (\<not> isl r \<longrightarrow> patch_url s \<noteq> None \<and> patch_cdn_url s \<noteq> None \<and> sock_fd s \<noteq> None)
       \<and> (\<forall>p. snd (patch_init env host port w) = Inr p \<longrightarrow>
              patch_url p \<noteq> None \<and> patch_cdn_url p \<noteq> None \<and> sock_fd p \<noteq> None)"
proof -
  have general: "(length d < 37 + 2 * declared_len1 d + 2 * declared_len2 d
           \<and> (length d < 37 + 2 * declared_len1 d \<or> even (length d)) \<longrightarrow> isl r')
       \<and> (isl r' \<longrightarrow> patch_cdn_url s' = patch_cdn_url self' \<and> sock_fd s' = sock_fd self')
       \<and> (\<not> isl r' \<longrightarrow> patch_url s' \<noteq> None \<and> patch_cdn_url s' \<noteq> None \<and> sock_fd s' \<noteq> None)"
    if run: "update_patch_urls env self' w = (s', w'', r')" for self' s' w'' r'
  proof -
    consider (early) "s' = self'" "isl r'"
      | (parsed) w0 w1 where "parse_response env self' w0 d = (s', w1, r')"
      using update_patch_urls_cases [OF run] assms(1,2) by auto
    then show ?thesis
    proof cases
      case early
      then show ?thesis by simp
    next
      case parsed
      show ?thesis
      proof (cases r')
        case (Inl e)
        then show ?thesis using parse_response_failure_keeps parsed by fastforce
      next
        case (Inr u)
        then show ?thesis
          using parse_response_success_sets parse_response_success_length
            parse_response_success_even parsed
          by (metis isl_def sum.disc(2) not_less option.distinct(1))
      qed
    qed
  qed
  define fresh where "fresh = \<lparr>master_server = (host, port), patch_url = None,
    patch_cdn_url = None, sock_fd = None\<rparr>"
  obtain s0 w0 r0 where init: "update_patch_urls env fresh w = (s0, w0, r0)"
    by (cases "update_patch_urls env fresh w")
  have pi: "snd (patch_init env host port w) = (case r0 of Inl e \<Rightarrow> Inl e | Inr u \<Rightarrow> Inr s0)"
    using init by (simp add: patch_init_def fresh_def split: sum.splits)
  have "isl (snd (patch_init env host port w)) = isl r0"
    by (simp add: pi split: sum.splits)
  moreover have "p = s0 \<and> \<not> isl r0" if "snd (patch_init env host port w) = Inr p" for p
    using that by (simp add: pi split: sum.splits)
  ultimately show ?thesis
    using general [OF assms(3)] general [OF init] by metis
qed

theorem handshake_truncated_or_failed_witness:
  "isl (snd (snd (update_patch_urls
          (env404\<lparr>recv_out := Inr ([0] @ replicate 33 0 @ [1] @ [0x61, 0])\<rparr>) unborn world0)))
   \<and> isl (snd (patch_init
          (env404\<lparr>recv_out := Inr ([0] @ replicate 33 0 @ [1] @ [0x61, 0])\<rparr>)
          (py ''pathofexile.com'') 12995 world0))
   \<and> patch_cdn_url (fst (update_patch_urls
          (env404\<lparr>recv_out := Inr ([0] @ replicate 33 0 @ [1] @ [0x61, 0])\<rparr>) unborn world0)) = None
   \<and> sock_fd (fst (update_patch_urls
          (env404\<lparr>recv_out := Inr ([0] @ replicate 33 0 @ [1] @ [0x61, 0])\<rparr>) unborn world0)) = None"
proof -
  let ?d = "[0] @ replicate 33 0 @ [1] @ [0x61, 0] :: bytes"
  let ?env = "env404\<lparr>recv_out := Inr ?d\<rparr>"
  have len1: "declared_len1 ?d = 1"
    by (simp add: declared_len1_def nth_append)
  have short: "length ?d < 37 + 2 * declared_len1 ?d + 2 * declared_len2 ?d
               \<and> (length ?d < 37 + 2 * declared_len1 ?d \<or> even (length ?d))"
    using len1 by simp
  have "recv_out ?env = Inr ?d" and "?d = take 1024 ?d"
    by simp_all
  from handshake_truncated_or_failed [OF this, of unborn world0
      "fst (update_patch_urls ?env unborn world0)"
      "fst (snd (update_patch_urls ?env unborn world0))"
      "snd (snd (update_patch_urls ?env unborn world0))" "py ''pathofexile.com''" 12995] short
  show ?thesis by (simp add: unborn_def)
qed

text \<open>
  C1 as stated fails twice. A buffer of 39 bytes with \<open>len1 = 0\<close> and \<open>len2 = 2\<close> is
  shorter than \<open>36 + 2 * len1 + 2 * len2 = 40\<close>, yet the handshake succeeds: \<open>read\<close>
  returns the two bytes that are left and they decode. And when \<open>update_patch_urls\<close> is
  called on a live session and the buffer ends after the first text, the call raises
  after \<open>patch_url\<close> has been assigned: the session then holds the new \<open>patch_url\<close> beside
  the old \<open>patch_cdn_url\<close>.
\<close>

theorem handshake_truncated_accepted_counterexample:
  "length ([0] @ replicate 33 0 @ [0] @ [0] @ [2] @ [0x61, 0] :: bytes)
     < 36 + 2 * declared_len1 ([0] @ replicate 33 0 @ [0] @ [0] @ [2] @ [0x61, 0])
          + 2 * declared_len2 ([0] @ replicate 33 0 @ [0] @ [0] @ [2] @ [0x61, 0])
   \<and> snd (patch_init
         (env404\<lparr>recv_out := Inr ([0] @ replicate 33 0 @ [0] @ [0] @ [2] @ [0x61, 0])\<rparr>)
         (py ''pathofexile.com'') 12995 world0)
       = Inr \<lparr>master_server = (py ''pathofexile.com'', 12995), patch_url = Some [],
              patch_cdn_url = Some [0x61], sock_fd = Some 3\<rparr>
   \<and> snd (snd (update_patch_urls
         (env404\<lparr>recv_out := Inr ([0] @ replicate 33 0 @ [1] @ [0x61, 0])\<rparr>) session world0))
       = Inl StructError
   \<and> patch_url (fst (update_patch_urls
         (env404\<lparr>recv_out := Inr ([0] @ replicate 33 0 @ [1] @ [0x61, 0])\<rparr>) session world0))
       = Some [0x61]
   \<and> patch_cdn_url (fst (update_patch_urls
         (env404\<lparr>recv_out := Inr ([0] @ replicate 33 0 @ [1] @ [0x61, 0])\<rparr>) session world0))
       = patch_cdn_url session"
  by (simp add: patch_init_def update_patch_urls_def handshake_body_def parse_response_def
      env404_def session_def world0_def unpack_B_def unpack_33s_def
      decode_utf16_def code_unit_def sock_ev_def declared_len1_def declared_len2_def nth_append)

subsection \<open>Round trip\<close>

lemma byte_lo: "unat (of_nat (c mod 256) :: byte) = c mod 256"
  by (simp add: unat_of_nat)

lemma byte_hi: "c < 65536 \<Longrightarrow> unat (of_nat (c div 256) :: byte) = c div 256"
  by (simp add: unat_of_nat)

lemma code_unit_le_encode:
  "c < 65536 \<Longrightarrow> code_unit True (of_nat (c mod 256)) (of_nat (c div 256)) = c"
  by (simp add: code_unit_def byte_lo byte_hi)

lemma utf16_units_encode:
  "encode_utf16le s = Some t \<Longrightarrow> utf16_units True t = Inr s"
proof (induction s arbitrary: t)
  case Nil
  then show ?case by simp
next
  case (Cons c cs)
  then obtain bs where bs: "encode_utf16le cs = Some bs"
    by (auto split: option.splits)
  have ih: "utf16_units True bs = Inr cs" using Cons.IH bs by simp
  show ?case
  proof (cases "c < 0xD800 \<or> (0xDFFF < c \<and> c < 0x10000)")
    case True
    then have "c < 65536" by auto
    then show ?thesis using Cons.prems bs True ih
      by (auto simp: code_unit_le_encode Let_def)
  next
    case False
    then have r: "0x10000 \<le> c" "c < 0x110000" using Cons.prems bs
      by (auto split: if_splits)
    define hi where "hi = 0xD800 + (c - 0x10000) div 0x400"
    define lo where "lo = 0xDC00 + (c - 0x10000) mod 0x400"
    have hi: "0xD800 \<le> hi" "hi < 0xDC00" using r by (auto simp: hi_def)
    have lo: "0xDC00 \<le> lo" "lo \<le> 0xDFFF" by (auto simp: lo_def)
    have t: "t = of_nat (hi mod 256) # of_nat (hi div 256) # of_nat (lo mod 256) # of_nat (lo div 256) # bs"
      using Cons.prems bs False r by (simp add: hi_def lo_def Let_def)
    have "0x10000 + (hi - 0xD800) * 0x400 + (lo - 0xDC00) = c"
      using r by (simp add: hi_def lo_def)
    then show ?thesis using hi lo ih
      by (simp add: t code_unit_le_encode Let_def)
  qed
qed

lemma encode_utf16le_even: "encode_utf16le s = Some t \<Longrightarrow> even (length t)"
  by (induction s arbitrary: t) (auto simp: Let_def split: option.splits if_splits)

lemma decode_utf16_encode:
  assumes "encode_utf16le s = Some t" and "\<not> starts_with_bom s"
  shows "decode_utf16 t = Inr s"
proof (cases s)
  case Nil
  then show ?thesis using assms by (simp add: decode_utf16_def)
next
  case (Cons c cs)
  obtain bs where bs: "encode_utf16le cs = Some bs"
    using assms(1) Cons by (auto split: option.splits)
  have nb: "c \<noteq> 0xFEFF" "c \<noteq> 0xFFFE"
    using assms(2) Cons by (simp_all add: starts_with_bom_def)
  obtain b0 b1 rest where t: "t = b0 # b1 # rest"
    and first: "code_unit True b0 b1 = c \<or> (0xD800 \<le> code_unit True b0 b1 \<and> code_unit True b0 b1 < 0xDC00)"
  proof (cases "c < 0xD800 \<or> (0xDFFF < c \<and> c < 0x10000)")
    case True
    then have "c < 65536" by auto
    then show ?thesis using that assms(1) Cons bs True
      by (auto simp: code_unit_le_encode)
  next
    case False
    then have r: "0x10000 \<le> c" "c < 0x110000" using assms(1) Cons bs
      by (auto split: if_splits)
    define hi where "hi = 0xD800 + (c - 0x10000) div 0x400"
    have hi: "0xD800 \<le> hi" "hi < 0xDC00" using r by (auto simp: hi_def)
    then have cu: "code_unit True (of_nat (hi mod 256)) (of_nat (hi div 256)) = hi"
      by (intro code_unit_le_encode) simp
    have "t = of_nat (hi mod 256) # of_nat (hi div 256)
              # (of_nat ((0xDC00 + (c - 0x10000) mod 0x400) mod 256)
              # of_nat ((0xDC00 + (c - 0x10000) mod 0x400) div 256) # bs)"
      using assms(1) Cons bs False r by (simp add: hi_def Let_def)
    then show ?thesis
      by (rule that) (use cu hi in simp)
  qed
  have no_mark: "code_unit True b0 b1 \<noteq> 0xFEFF" "code_unit True b0 b1 \<noteq> 0xFFFE"
    using first nb by auto
  have "\<not> (b0 = 0xFF \<and> b1 = 0xFE)"
  proof
    assume "b0 = 0xFF \<and> b1 = 0xFE"
    then have "code_unit True b0 b1 = 0xFEFF" by (simp add: code_unit_def)
    then show False using no_mark(1) by simp
  qed
  moreover have "\<not> (b0 = 0xFE \<and> b1 = 0xFF)"
  proof
    assume "b0 = 0xFE \<and> b1 = 0xFF"
    then have "code_unit True b0 b1 = 0xFFFE" by (simp add: code_unit_def)
    then show False using no_mark(2) by simp
  qed
  ultimately have "decode_utf16 t = utf16_units True t"
    by (auto simp add: decode_utf16_def t simp del: utf16_units.simps)
  then show ?thesis using utf16_units_encode [OF assms(1)] by simp
qed

lemma unpack_B_single: "unpack_B [x] = Inr (unat x)"
  by (simp add: unpack_B_def)

lemma parse_handshake_response:
  assumes "decode_utf16 t1 = Inr s1" and "decode_utf16 t2 = Inr s2"
    and "even (length t1)" and "even (length t2)"
    and "length blank = 33" and "length t1 \<le> 510" and "length t2 \<le> 510"
  shows "parse_response env self w (handshake_response r0 blank t1 r1 t2 @ padding)
           = (self\<lparr>patch_url := Some s1, patch_cdn_url := Some s2, sock_fd := Some (detach_fd env)\<rparr>,
              sock_ev (SockDetach (detach_fd env)) w, Inr ())"
proof -
  have l1: "unat (of_nat (length t1 div 2) :: byte) * 2 = length t1"
    using assms(3,6) by (simp add: unat_of_nat)
  have l2: "unat (of_nat (length t2 div 2) :: byte) * 2 = length t2"
    using assms(4,7) by (simp add: unat_of_nat)
  show ?thesis
    using assms(1,2,5)
    by (simp add: parse_response_def handshake_response_def unpack_B_single unpack_33s_def l1 l2)
qed

text \<open>
  C5, as the code has it. Take two strings that UTF-16LE can encode in at most 255 code
  units each and that do not begin with \<open>U+FEFF\<close> or \<open>U+FFFE\<close>, lay them out as the
  specification describes, with any reserved bytes, in at most 1024 bytes, followed by
  anything. When the connection is made and that response is received,
  \<open>update_patch_urls\<close> returns with \<open>patch_url\<close> and \<open>patch_cdn_url\<close> equal to the two
  strings (on a host whose byte order is little-endian).
\<close>

theorem handshake_round_trip:
  assumes "encode_utf16le s1 = Some t1" and "encode_utf16le s2 = Some t2"
    and "\<not> starts_with_bom s1" and "\<not> starts_with_bom s2"
    and "length blank = 33" and "length t1 \<le> 510" and "length t2 \<le> 510"
    and "length (handshake_response r0 blank t1 r1 t2) \<le> 1024"
    and "socket_out env = None" and "connect_out env = None" and "send_out env = None"
    and "recv_out env = Inr (handshake_response r0 blank t1 r1 t2 @ padding)"
  shows "fst (update_patch_urls env self w)
           = self\<lparr>patch_url := Some s1, patch_cdn_url := Some s2, sock_fd := Some (detach_fd env)\<rparr>
         \<and> snd (snd (update_patch_urls env self w)) = Inr ()"
proof -
  let ?r = "handshake_response r0 blank t1 r1 t2"
  have "take 1024 (?r @ padding) = ?r @ take (1024 - length ?r) padding"
    using assms(8) by simp
  moreover have "parse_response env self w' (?r @ take (1024 - length ?r) padding)
      = (self\<lparr>patch_url := Some s1, patch_cdn_url := Some s2, sock_fd := Some (detach_fd env)\<rparr>,
         sock_ev (SockDetach (detach_fd env)) w', Inr ())" for w'
    using decode_utf16_encode [OF assms(1,3)] decode_utf16_encode [OF assms(2,4)]
      encode_utf16le_even [OF assms(1)] encode_utf16le_even [OF assms(2)] assms(5,6,7)
    by (rule parse_handshake_response)
  ultimately show ?thesis
    using assms(9-12) by (simp add: update_patch_urls_def handshake_body_def)
qed

theorem handshake_round_trip_witness:
  "fst (update_patch_urls
          (env404\<lparr>recv_out := Inr (handshake_response 2 (replicate 33 0) [0x61, 0, 0x2F, 0] 0
                                   [0x3D, 0xD8, 0x00, 0xDE] @ [7, 7, 7])\<rparr>) unborn world0)
     = unborn\<lparr>patch_url := Some [0x61, 0x2F], patch_cdn_url := Some [0x1F600], sock_fd := Some 3\<rparr>
   \<and> snd (snd (update_patch_urls
          (env404\<lparr>recv_out := Inr (handshake_response 2 (replicate 33 0) [0x61, 0, 0x2F, 0] 0
                                   [0x3D, 0xD8, 0x00, 0xDE] @ [7, 7, 7])\<rparr>) unborn world0))
     = Inr ()"
proof -
  have e1: "encode_utf16le [0x61, 0x2F] = Some [0x61, 0, 0x2F, 0]" by simp
  have e2: "encode_utf16le [0x1F600] = Some [0x3D, 0xD8, 0x00, 0xDE]" by simp
  have nb: "\<not> starts_with_bom [0x61, 0x2F]" "\<not> starts_with_bom [0x1F600]"
    by (simp_all add: starts_with_bom_def)
  show ?thesis
    using handshake_round_trip [OF e1 e2 nb, of "replicate 33 0" 2 0
        "env404\<lparr>recv_out := Inr (handshake_response 2 (replicate 33 0) [0x61, 0, 0x2F, 0] 0
                                   [0x3D, 0xD8, 0x00, 0xDE] @ [7, 7, 7])\<rparr>" "[7, 7, 7]" unborn world0]
    by (simp add: env404_def handshake_response_def)
qed

text \<open>
  C5 as stated fails: \<open>decode('utf-16')\<close> takes a leading \<open>FF FE\<close> for a byte order mark
  and drops it, so a string that begins with \<open>U+FEFF\<close> comes back without its first
  code point.
\<close>

theorem handshake_round_trip_counterexample:
  "encode_utf16le [0xFEFF, 0x61] = Some [0xFF, 0xFE, 0x61, 0]
   \<and> encode_utf16le [0x62] = Some [0x62, 0]
   \<and> patch_url (fst (update_patch_urls
          (env404\<lparr>recv_out := Inr (handshake_response 0 (replicate 33 0) [0xFF, 0xFE, 0x61, 0] 0
                                   [0x62, 0])\<rparr>) unborn world0))
       = Some [0x61]
   \<and> patch_url (fst (update_patch_urls
          (env404\<lparr>recv_out := Inr (handshake_response 0 (replicate 33 0) [0xFF, 0xFE, 0x61, 0] 0
                                   [0x62, 0])\<rparr>) unborn world0))
       \<noteq> Some [0xFEFF, 0x61]"
  by (simp add: update_patch_urls_def handshake_body_def parse_response_def
      handshake_response_def env404_def unborn_def world0_def unpack_B_def unpack_33s_def
      decode_utf16_def code_unit_def sock_ev_def)

end
